theory Spec2Isabelle
  imports Main "HOL-Library.Sublist"
begin

section \<open>The security camera client: shared state\<close>

text \<open>
  The client is one Python function \<open>main(page)\<close> whose local variables and widgets are
  shared by the nested handlers. The model keeps the variables and the widget attributes
  the handlers read or write in one record. Strings are the UTF-8 bytes of the Python
  text. Calls that only redraw the window (\<open>page.update()\<close>) change none of these
  fields and are left out (a redraw is taken to succeed), as are the \<open>print\<close> calls that
  only trace progress; the standard output is kept as \<open>console\<close> for the two places
  where a handler reports a problem there and nowhere else.

  \<open>datetime.now()\<close> is an input of the environment: \<open>clock s k\<close> is the text the
  \<open>k\<close>-th reading of the wall clock yields, and \<open>clock_reads\<close> counts the readings.

  A task handle is a number: \<open>task_count\<close> is the number of tasks that
  \<open>asyncio.create_task\<close> has made so far, and the next handle.
\<close>

datatype coroutine = UpdateVideoFeed | SendStopRequest

record state =
  is_running :: bool
  video_update_task :: "nat option"
  api_url_input :: string
  alerts_list :: "string list"
  start_button_disabled :: bool
  stop_button_disabled :: bool
  status_label :: string
  video_src_base64 :: "string option"
  self_destruct_status :: string
  self_destruct_progress_visible :: bool
  self_destruct_confirm_disabled :: bool
  self_destruct_cancel_disabled :: bool
  self_destruct_done_visible :: bool
  console :: "string list"
  task_count :: nat
  clock :: "nat \<Rightarrow> string"
  clock_reads :: nat

definition DEFAULT_REST_API_URL :: string where
  "DEFAULT_REST_API_URL = ''http://localhost:5000''"

text \<open>The values the variables and widgets have when \<open>main\<close> has built the window.\<close>

definition initial_state :: "(nat \<Rightarrow> string) \<Rightarrow> state" where
  "initial_state c =
     \<lparr> is_running = False,
       video_update_task = None,
       api_url_input = DEFAULT_REST_API_URL,
       alerts_list = [],
       start_button_disabled = False,
       stop_button_disabled = True,
       status_label = ''System Ready'',
       video_src_base64 = None,
       self_destruct_status = ''WARNING: This will delete ALL data including S3 bucket contents, database records, and security alerts.'',
       self_destruct_progress_visible = False,
       self_destruct_confirm_disabled = False,
       self_destruct_cancel_disabled = False,
       self_destruct_done_visible = False,
       console = [],
       task_count = 0,
       clock = c,
       clock_reads = 0 \<rparr>"

subsection \<open>The alert log\<close>

text \<open>
  \<open>add_alert\<close> reads the clock, appends the text \<open>[HH:MM:SS] message\<close> to the list and,
  when the list is then longer than 200, removes its first element (\<open>pop(0)\<close>).
\<close>

definition alert_text :: "string \<Rightarrow> string \<Rightarrow> string" where
  "alert_text timestamp message = ''['' @ timestamp @ ''] '' @ message"

definition add_alert :: "string \<Rightarrow> state \<Rightarrow> state" where
  "add_alert message s =
     (let timestamp = clock s (clock_reads s);
          controls = alerts_list s @ [alert_text timestamp message];
          controls = (if length controls > 200 then tl controls else controls)
      in s\<lparr>alerts_list := controls, clock_reads := Suc (clock_reads s)\<rparr>)"

subsection \<open>The base URL\<close>

text \<open>
  \<open>str.strip()\<close> removes from both ends the code points for which \<open>str.isspace\<close> holds.
  On UTF-8 text these are the byte sequences below: the ASCII controls 09-0D and 1C-1F,
  the space, U+0085, U+00A0, U+1680, U+2000 to U+200A, U+2028, U+2029, U+202F, U+205F
  and U+3000. \<open>rstrip('/')\<close> removes every slash at the end.
\<close>

definition whitespace :: "string list" where
  "whitespace =
     map (\<lambda>c. [c])
       [CHR 0x09, CHR 0x0A, CHR 0x0B, CHR 0x0C, CHR 0x0D,
        CHR 0x1C, CHR 0x1D, CHR 0x1E, CHR 0x1F, CHR 0x20]
     @ [[CHR 0xC2, CHR 0x85], [CHR 0xC2, CHR 0xA0], [CHR 0xE1, CHR 0x9A, CHR 0x80]]
     @ map (\<lambda>c. [CHR 0xE2, CHR 0x80, c])
       [CHR 0x80, CHR 0x81, CHR 0x82, CHR 0x83, CHR 0x84, CHR 0x85, CHR 0x86, CHR 0x87,
        CHR 0x88, CHR 0x89, CHR 0x8A, CHR 0xA8, CHR 0xA9, CHR 0xAF]
     @ [[CHR 0xE2, CHR 0x81, CHR 0x9F], [CHR 0xE3, CHR 0x80, CHR 0x80]]"

function lstrip_tokens :: "string list \<Rightarrow> string \<Rightarrow> string" where
  "lstrip_tokens ts s =
     (case find (\<lambda>t. t \<noteq> [] \<and> prefix t s) ts of
        None \<Rightarrow> s
      | Some t \<Rightarrow> lstrip_tokens ts (drop (length t) s))"
  by pat_completeness auto
termination
proof (relation "measure (\<lambda>(ts, s). length s)")
  show "wf (measure (\<lambda>(ts, s). length s))" by simp
next
  fix ts :: "string list" and s t :: string
  assume "find (\<lambda>t. t \<noteq> [] \<and> prefix t s) ts = Some t"
  then have "t \<noteq> []" "prefix t s" by (auto simp: find_Some_iff)
  then have "s \<noteq> []" by auto
  with \<open>t \<noteq> []\<close> show "((ts, drop (length t) s), (ts, s)) \<in> measure (\<lambda>(ts, s). length s)"
    by simp
qed

declare lstrip_tokens.simps [simp del]

definition rstrip_tokens :: "string list \<Rightarrow> string \<Rightarrow> string" where
  "rstrip_tokens ts s = rev (lstrip_tokens (map rev ts) (rev s))"

definition py_strip :: "string \<Rightarrow> string" where
  "py_strip s = rstrip_tokens whitespace (lstrip_tokens whitespace s)"

definition rstrip_slash :: "string \<Rightarrow> string" where
  "rstrip_slash s = rstrip_tokens [''/''] s"

definition has_scheme :: "string \<Rightarrow> bool" where
  "has_scheme url = (prefix ''http://'' url \<or> prefix ''https://'' url)"



text \<open>
  \<open>get_base_url\<close> reads the text field at every call. It returns the URL and the state,
  in which only the console can have changed (the warning about the scheme).
\<close>

definition get_base_url :: "state \<Rightarrow> string \<times> state" where
  "get_base_url s =
     (let url = py_strip (api_url_input s) in
      if url = [] then (DEFAULT_REST_API_URL, s)
      else
        (rstrip_slash url,
         if \<not> has_scheme url
         then s\<lparr>console := console s
                 @ [''Warning: Invalid URL format: '' @ url @ ''. Attempting to use anyway.'']\<rparr>
         else s))"

section \<open>Coroutines\<close>

text \<open>
  The handlers are \<open>async\<close> functions run by one event loop. A handler runs without
  interruption up to an \<open>await\<close> that really suspends it: a request sent through
  \<open>asyncio.to_thread\<close>, \<open>asyncio.sleep\<close>, or waiting for a task. While it is suspended
  other handlers run and may change the shared state, so what follows an \<open>await\<close> is
  a function of what was awaited and of the state found on resumption.
  (\<open>await add_alert(...)\<close> never suspends: \<open>add_alert\<close> awaits nothing itself.)

  An exception has a class, as far as the \<open>except\<close> clauses tell classes apart, and the
  text \<open>str(e)\<close>. \<open>requests.exceptions.Timeout\<close> is a \<open>RequestException\<close>, which is an
  \<open>Exception\<close>; the order of the clauses decides which one handles it.
\<close>

datatype exn_class = Timeout | RequestException | OtherException

type_synonym exn = "exn_class \<times> string"

text \<open>
  What a handler learns from a request. \<open>Raised c m\<close>: a statement of the \<open>try\<close> block
  between sending the request and reading the answer (the request itself,
  \<open>raise_for_status()\<close>, \<open>json()\<close>, the first \<open>result.get\<close>) raised an exception of
  class \<open>c\<close> with text \<open>m\<close>. \<open>Json p\<close>: the answer was a JSON object; \<open>p\<close> holds the
  truth value of \<open>result.get('success')\<close> and, for each other key that is read, its value
  as Python prints it, or \<open>None\<close> when the key is absent.
\<close>

record payload =
  json_success :: bool
  json_detail :: "string option"
  json_frame :: "string option"
  json_deleted_count :: "string option"

datatype http_outcome = Raised exn_class string | Json payload

record request =
  verb :: string
  base_url :: string
  path :: string
  json_body :: "(string \<times> string) list"
  params :: "(string \<times> string) list"
  timeout :: nat

text \<open>How an awaited task ended: by the cancellation, by returning, or by an exception.\<close>

datatype completion = TaskCancelled | TaskReturned | TaskRaised exn_class string

text \<open>
  What a coroutine asks of the event loop without being suspended: \<open>cancel()\<close> on a
  task, and \<open>create_task\<close>, with the handle of the new task.
\<close>

datatype effect = CancelTask nat | CreateTask coroutine nat

text \<open>
  A coroutine started in a state has either finished, with a value or an exception, or is
  suspended: on a request, on a sleep (in milliseconds) or on a task; or it performs an
  effect and goes on at once. Each of these carries the state the coroutine has reached.
  \<open>OutOfFuel\<close> marks where the bounded unfolding of a loop was cut.
\<close>

datatype 'a step =
    Done "exn + 'a" state
  | AwaitHttp request state "http_outcome \<Rightarrow> state \<Rightarrow> 'a step"
  | AwaitSleep nat state "state \<Rightarrow> 'a step"
  | AwaitTask nat state "completion \<Rightarrow> state \<Rightarrow> 'a step"
  | Perform effect state "'a step"
  | OutOfFuel state

text \<open>\<open>await m\<close> inside another coroutine: run \<open>m\<close> to its end, then go on with its result.\<close>

primrec then_do :: "'a step \<Rightarrow> (exn + 'a \<Rightarrow> state \<Rightarrow> 'b step) \<Rightarrow> 'b step" where
  "then_do (Done r s) f = f r s"
| "then_do (AwaitHttp q s k) f = AwaitHttp q s (\<lambda>r s'. then_do (k r s') f)"
| "then_do (AwaitSleep d s k) f = AwaitSleep d s (\<lambda>s'. then_do (k s') f)"
| "then_do (AwaitTask t s k) f = AwaitTask t s (\<lambda>c s'. then_do (k c s') f)"
| "then_do (Perform x s m) f = Perform x s (then_do m f)"
| "then_do (OutOfFuel s) f = OutOfFuel s"

text \<open>Sequencing of statements: an exception of the first ends the whole.\<close>

definition and_then :: "'a step \<Rightarrow> ('a \<Rightarrow> state \<Rightarrow> 'b step) \<Rightarrow> 'b step" where
  "and_then m f = then_do m (\<lambda>r s. case r of Inl e \<Rightarrow> Done (Inl e) s | Inr a \<Rightarrow> f a s)"

definition get_default :: "string option \<Rightarrow> string \<Rightarrow> string" where
  "get_default v d = (case v of Some x \<Rightarrow> x | None \<Rightarrow> d)"

definition camera_request :: "string \<Rightarrow> string \<Rightarrow> request" where
  "camera_request base action =
     \<lparr> verb = ''POST'', base_url = base, path = ''/camera'',
       json_body = [(''action'', action)], params = [], timeout = 10 \<rparr>"

subsection \<open>The polling loop\<close>

text \<open>
  \<open>update_video_feed\<close> is \<open>while is_running: ...\<close>; the first argument bounds the number
  of iterations that are unfolded. An exception that no clause handles ends the task.
  Sleeps are in milliseconds: 2000 after a failed request, 100 at the end of every
  iteration.
\<close>

primrec update_video_feed :: "nat \<Rightarrow> state \<Rightarrow> unit step" where
  "update_video_feed 0 s = (if is_running s then OutOfFuel s else Done (Inr ()) s)"
| "update_video_feed (Suc n) s =
     (if is_running s then
        (let (base, s) = get_base_url s in
         AwaitHttp \<lparr> verb = ''GET'', base_url = base, path = ''/camera'',
                     json_body = [], params = [], timeout = 5 \<rparr> s
           (\<lambda>r s.
              case r of
                Json result \<Rightarrow>
                  (if json_success result \<and> json_frame result \<noteq> None \<and> json_frame result \<noteq> Some []
                   then AwaitSleep 100 (s\<lparr>video_src_base64 := json_frame result\<rparr>)
                          (update_video_feed n)
                   else AwaitSleep 100
                          (add_alert (''Frame retrieval failed: ''
                             @ get_default (json_detail result) ''Frame not available'') s)
                          (update_video_feed n))
              | Raised Timeout m \<Rightarrow>
                  AwaitSleep 2000
                    (if is_running s then add_alert ''Video feed request timed out.'' s else s)
                    (\<lambda>s. AwaitSleep 100 s (update_video_feed n))
              | Raised RequestException m \<Rightarrow>
                  AwaitSleep 2000
                    (if is_running s then add_alert (''Error updating video feed: '' @ m) s else s)
                    (\<lambda>s. AwaitSleep 100 s (update_video_feed n))
              | Raised OtherException m \<Rightarrow> Done (Inl (OtherException, m)) s))
      else Done (Inr ()) s)"

subsection \<open>Starting and stopping\<close>

datatype control_event = ControlEvent

definition start_monitoring :: "control_event option \<Rightarrow> state \<Rightarrow> unit step" where
  "start_monitoring e s =
     (if \<not> is_running s then
        (let s = s\<lparr>start_button_disabled := True\<rparr>;
             s = add_alert ''Attempting to start monitoring...'' s;
             (base, s) = get_base_url s
         in AwaitHttp (camera_request base ''start'') s
           (\<lambda>r s.
              case r of
                Json result \<Rightarrow>
                  (if json_success result then
                     (let s = s\<lparr>is_running := True, start_button_disabled := False,
                                 stop_button_disabled := False,
                                 status_label := ''Monitoring Active''\<rparr>;
                          s = add_alert ''Camera monitoring started successfully.'' s;
                          t = task_count s
                      in Perform (CreateTask UpdateVideoFeed t) s
                           (Done (Inr ()) (s\<lparr>task_count := Suc t, video_update_task := Some t\<rparr>)))
                   else
                     (let s = add_alert (''Failed to start monitoring: ''
                                  @ get_default (json_detail result) ''Unknown error'') s
                      in Done (Inr ()) (s\<lparr>start_button_disabled := False\<rparr>)))
              | Raised Timeout m \<Rightarrow>
                  (let s = add_alert ''Error starting monitoring: Request timed out.'' s
                   in Done (Inr ()) (s\<lparr>start_button_disabled := False\<rparr>))
              | Raised RequestException m \<Rightarrow>
                  (let s = add_alert (''Error starting monitoring: '' @ m) s
                   in Done (Inr ()) (s\<lparr>start_button_disabled := False\<rparr>))
              | Raised OtherException m \<Rightarrow>
                  (let s = add_alert (''Unexpected error starting monitoring: '' @ m) s
                   in Done (Inr ()) (s\<lparr>start_button_disabled := False\<rparr>))))
      else Done (Inr ()) s)"

text \<open>
  The nested coroutine of \<open>stop_monitoring\<close> that tells the backend. Its \<open>try\<close> block holds
  the request alone, and the answer is not read.
\<close>

definition send_stop_request :: "state \<Rightarrow> unit step" where
  "send_stop_request s =
     (let (base, s) = get_base_url s in
      AwaitHttp (camera_request base ''stop'') s
        (\<lambda>r s.
           case r of
             Json result \<Rightarrow> Done (Inr ()) s
           | Raised c m \<Rightarrow>
               Done (Inr ())
                 (s\<lparr>console := console s @ [''Failed to send stop request to API: '' @ m]\<rparr>)))"

text \<open>
  What \<open>stop_monitoring\<close> does once the polling task is out of the way. The argument
  \<open>e\<close> only decides whether the window is redrawn.
\<close>

definition stopped :: "state \<Rightarrow> unit step" where
  "stopped s =
     (let s = s\<lparr>start_button_disabled := False, stop_button_disabled := True,
                 status_label := ''System Ready'', video_src_base64 := None\<rparr>;
          s = add_alert ''Camera monitoring stopped.'' s;
          t = task_count s
      in Perform (CreateTask SendStopRequest t) s (Done (Inr ()) (s\<lparr>task_count := Suc t\<rparr>)))"

definition stop_monitoring :: "control_event option \<Rightarrow> state \<Rightarrow> unit step" where
  "stop_monitoring e s =
     (if is_running s then
        (let s = s\<lparr>stop_button_disabled := True\<rparr>;
             s = add_alert ''Attempting to stop monitoring...'' s;
             s = s\<lparr>is_running := False\<rparr>
         in case video_update_task s of
              Some t \<Rightarrow>
                Perform (CancelTask t) s
                  (AwaitTask t s
                     (\<lambda>c s.
                        case c of
                          TaskRaised cls m \<Rightarrow> Done (Inl (cls, m)) s
                        | _ \<Rightarrow> stopped (s\<lparr>video_update_task := None\<rparr>)))
            | None \<Rightarrow> stopped s)
      else
        (let s = s\<lparr>start_button_disabled := False, stop_button_disabled := True,
                    status_label := ''System Ready'', video_src_base64 := None\<rparr>
         in Done (Inr ()) (add_alert ''Camera monitoring not active. Cannot stop.'' s)))"

subsection \<open>Self-destruct\<close>

text \<open>The three signs that start the messages, as UTF-8: U+2705, U+26A0 U+FE0F, U+274C.\<close>

definition check_mark :: string where
  "check_mark = [CHR 0xE2, CHR 0x9C, CHR 0x85]"

definition warning_sign :: string where
  "warning_sign = [CHR 0xE2, CHR 0x9A, CHR 0xA0, CHR 0xEF, CHR 0xB8, CHR 0x8F]"

definition cross_mark :: string where
  "cross_mark = [CHR 0xE2, CHR 0x9D, CHR 0x8C]"

text \<open>
  \<open>perform_self_destruct\<close> is one function of four commented steps. Each step is a
  definition of its own here; the pair handed from step to step holds the local variables
  \<open>success\<close> and \<open>error_details\<close>.
\<close>

type_synonym tally = "bool \<times> string list"

definition failed :: "string \<Rightarrow> tally \<Rightarrow> state \<Rightarrow> tally step" where
  "failed msg acc s = Done (Inr (False, snd acc @ [msg])) (add_alert msg s)"

definition delete_s3_bucket :: "tally \<Rightarrow> state \<Rightarrow> tally step" where
  "delete_s3_bucket acc s =
     (let s = s\<lparr>self_destruct_status := ''Deleting S3 bucket...''\<rparr>;
          s = add_alert ''Deleting S3 bucket...'' s;
          (base, s) = get_base_url s
      in AwaitHttp \<lparr> verb = ''POST'', base_url = base, path = ''/s3/bucket/delete'',
                      json_body = [(''bucket_name'', ''computer-vision-analysis''),
                                   (''confirmation'', ''CONFIRM_DELETE'')],
                      params = [], timeout = 60 \<rparr> s
           (\<lambda>r s.
              case r of
                Json result \<Rightarrow>
                  (if json_success result
                   then Done (Inr acc) (add_alert (check_mark @ '' S3 bucket deleted.'') s)
                   else failed (warning_sign @ '' Failed to delete S3 bucket: ''
                          @ get_default (json_detail result) ''Unknown error'') acc s)
              | Raised c m \<Rightarrow> failed (cross_mark @ '' Error during S3 deletion: '' @ m) acc s))"

definition clean_database :: "tally \<Rightarrow> state \<Rightarrow> tally step" where
  "clean_database acc s =
     (let s = s\<lparr>self_destruct_status := ''Cleaning up database...''\<rparr>;
          s = add_alert ''Cleaning up database...'' s;
          (base, s) = get_base_url s
      in AwaitHttp \<lparr> verb = ''POST'', base_url = base, path = ''/db/cleanup'',
                      json_body = [], params = [(''days'', ''0'')], timeout = 30 \<rparr> s
           (\<lambda>r s.
              case r of
                Json result \<Rightarrow>
                  (if json_success result
                   then Done (Inr acc)
                          (add_alert (check_mark @ '' Database cleaned: ''
                             @ get_default (json_deleted_count result) ''0''
                             @ '' records deleted.'') s)
                   else failed (warning_sign @ '' Failed to clean database: ''
                          @ get_default (json_detail result) ''Unknown error'') acc s)
              | Raised c m \<Rightarrow>
                  failed (cross_mark @ '' Error during database cleanup: '' @ m) acc s))"

definition delete_database_file :: "tally \<Rightarrow> state \<Rightarrow> tally step" where
  "delete_database_file acc s =
     (let s = s\<lparr>self_destruct_status := ''Deleting database file...''\<rparr>;
          s = add_alert ''Deleting database file...'' s;
          (base, s) = get_base_url s
      in AwaitHttp \<lparr> verb = ''POST'', base_url = base, path = ''/db/delete-file'',
                      json_body = [], params = [], timeout = 10 \<rparr> s
           (\<lambda>r s.
              case r of
                Json result \<Rightarrow>
                  (if json_success result
                   then Done (Inr acc) (add_alert (check_mark @ '' Database file deleted.'') s)
                   else failed (warning_sign @ '' Failed to delete database file: ''
                          @ get_default (json_detail result) ''Unknown error'') acc s)
              | Raised c m \<Rightarrow>
                  failed (cross_mark @ '' Error deleting database file: '' @ m) acc s))"

definition stop_if_running :: "tally \<Rightarrow> state \<Rightarrow> tally step" where
  "stop_if_running acc s =
     (if is_running s then
        (let s = s\<lparr>self_destruct_status := ''Stopping camera monitoring...''\<rparr>;
             s = add_alert ''Stopping camera monitoring...'' s
         in then_do (stop_monitoring None s)
              (\<lambda>r s.
                 case r of
                   Inr u \<Rightarrow> Done (Inr acc) s
                 | Inl (c, m) \<Rightarrow>
                     failed (cross_mark @ '' Error stopping monitoring: '' @ m) acc s))
      else Done (Inr acc) s)"

definition final_status :: "tally \<Rightarrow> state \<Rightarrow> unit step" where
  "final_status acc s =
     (let s =
        (if fst acc then
           add_alert (check_mark @ '' Self-destruct sequence completed successfully.'')
             (s\<lparr>self_destruct_status :=
                  check_mark @ '' Self-destruct sequence completed successfully.''\<rparr>)
         else
           add_alert (warning_sign @ '' Self-destruct completed with some errors.'')
             (s\<lparr>self_destruct_status :=
                  warning_sign @ '' Self-destruct completed with some errors.''\<rparr>))
      in Done (Inr ())
           (s\<lparr>self_destruct_progress_visible := False, self_destruct_done_visible := True\<rparr>))"

definition perform_self_destruct :: "control_event option \<Rightarrow> state \<Rightarrow> unit step" where
  "perform_self_destruct e s =
     (let s = s\<lparr>self_destruct_status := ''Self-destruct sequence initiated...'',
                 self_destruct_progress_visible := True,
                 self_destruct_confirm_disabled := True,
                 self_destruct_cancel_disabled := True\<rparr>
      in and_then (delete_s3_bucket (True, []) s) (\<lambda>acc s.
         and_then (clean_database acc s) (\<lambda>acc s.
         and_then (delete_database_file acc s) (\<lambda>acc s.
         and_then (stop_if_running acc s) final_status))))"

section \<open>Running a coroutine\<close>

text \<open>
  The event loop, seen from one coroutine: a schedule says, for each suspension in turn,
  what the coroutine is resumed with and what the other handlers did to the shared state
  meanwhile. \<open>CancelNow\<close> is \<open>Task.cancel()\<close> taking effect at a request or a sleep: no
  coroutine here handles \<open>CancelledError\<close> at those, so the coroutine ends there.
  The run gives what the coroutine did, in order, each with the state it had reached, and
  how the run ended; \<open>Blocked\<close> is a coroutine still suspended when the schedule is used
  up, \<open>Stuck\<close> a schedule that does not fit the suspension.
\<close>

datatype resume = HttpResult http_outcome | TimerFired | TaskDone completion | CancelNow

datatype event = Http request | Sleep nat | Join nat | Did effect

datatype 'a status =
    Finished "exn + 'a" state
  | Blocked
  | Cancelled state
  | Stuck
  | Exhausted state

type_synonym schedule = "(resume \<times> (state \<Rightarrow> state)) list"

type_synonym trace = "(event \<times> state) list"

fun run :: "'a step \<Rightarrow> schedule \<Rightarrow> trace \<times> 'a status" where
  "run (Done r s) sch = ([], Finished r s)"
| "run (OutOfFuel s) sch = ([], Exhausted s)"
| "run (Perform x s m) sch = (let (tr, st) = run m sch in ((Did x, s) # tr, st))"
| "run (AwaitHttp q s k) [] = ([(Http q, s)], Blocked)"
| "run (AwaitHttp q s k) ((HttpResult r, f) # sch) =
     (let (tr, st) = run (k r (f s)) sch in ((Http q, s) # tr, st))"
| "run (AwaitHttp q s k) ((CancelNow, f) # sch) = ([(Http q, s)], Cancelled (f s))"
| "run (AwaitHttp q s k) (_ # sch) = ([(Http q, s)], Stuck)"
| "run (AwaitSleep d s k) [] = ([(Sleep d, s)], Blocked)"
| "run (AwaitSleep d s k) ((TimerFired, f) # sch) =
     (let (tr, st) = run (k (f s)) sch in ((Sleep d, s) # tr, st))"
| "run (AwaitSleep d s k) ((CancelNow, f) # sch) = ([(Sleep d, s)], Cancelled (f s))"
| "run (AwaitSleep d s k) (_ # sch) = ([(Sleep d, s)], Stuck)"
| "run (AwaitTask t s k) [] = ([(Join t, s)], Blocked)"
| "run (AwaitTask t s k) ((TaskDone c, f) # sch) =
     (let (tr, st) = run (k c (f s)) sch in ((Join t, s) # tr, st))"
| "run (AwaitTask t s k) (_ # sch) = ([(Join t, s)], Stuck)"

section \<open>Vocabulary of the properties\<close>

text \<open>A sequence of appends to the alert log, one \<open>add_alert\<close> per message.\<close>

definition append_alerts :: "string list \<Rightarrow> state \<Rightarrow> state" where
  "append_alerts ms s = foldl (\<lambda>s m. add_alert m s) s ms"

text \<open>A clock for the examples: every reading is noon.\<close>

definition noon :: "nat \<Rightarrow> string" where
  "noon k = ''12:00:00''"

text \<open>
  A step of the self-destruct sequence succeeds when the answer is a JSON object whose
  \<open>success\<close> is true. \<open>keeps_monitoring s s'\<close>: from \<open>s\<close> to \<open>s'\<close> the monitoring flag,
  the task handle and the number of tasks are unchanged.
\<close>

definition step_ok :: "http_outcome \<Rightarrow> bool" where
  "step_ok r = (case r of Json result \<Rightarrow> json_success result | Raised c m \<Rightarrow> False)"

definition keeps_monitoring :: "state \<Rightarrow> state \<Rightarrow> bool" where
  "keeps_monitoring s s' =
     (is_running s' = is_running s \<and> video_update_task s' = video_update_task s
      \<and> task_count s' = task_count s)"

text \<open>
  The events of a run by name, the events of step 4 (what \<open>stop_monitoring\<close> does when
  monitoring is active: cancel the polling task and wait for it if there is one, then
  start the task that tells the backend, unless waiting raised), when step 4 fails, and
  the two final status lines.
\<close>

fun event_name :: "event \<Rightarrow> string" where
  "event_name (Http q) = verb q @ '' '' @ path q"
| "event_name (Sleep d) = ''sleep''"
| "event_name (Join t) = ''await task''"
| "event_name (Did (CancelTask t)) = ''cancel task''"
| "event_name (Did (CreateTask UpdateVideoFeed t)) = ''create_task update_video_feed''"
| "event_name (Did (CreateTask SendStopRequest t)) = ''create_task send_stop_request''"

definition task_failed :: "completion \<Rightarrow> bool" where
  "task_failed c = (case c of TaskRaised cls m \<Rightarrow> True | _ \<Rightarrow> False)"

definition stop_step_events :: "state \<Rightarrow> completion \<Rightarrow> string list" where
  "stop_step_events s c =
     (if is_running s then
        (case video_update_task s of
           None \<Rightarrow> [''create_task send_stop_request'']
         | Some t \<Rightarrow> [''cancel task'', ''await task'']
             @ (if task_failed c then [] else [''create_task send_stop_request'']))
      else [])"

definition stop_step_failed :: "state \<Rightarrow> completion \<Rightarrow> bool" where
  "stop_step_failed s c = (is_running s \<and> video_update_task s \<noteq> None \<and> task_failed c)"

definition completed_text :: string where
  "completed_text = check_mark @ '' Self-destruct sequence completed successfully.''"

definition errors_text :: string where
  "errors_text = warning_sign @ '' Self-destruct completed with some errors.''"

text \<open>
  For the examples: an answer that reports success; the state in which a
  \<open>start_monitoring\<close> begun in a fresh window waits for its answer; what the
  arrival of a successful answer to that start does to the shared state; and a schedule
  for \<open>perform_self_destruct\<close> in which that answer arrives during the first request.
\<close>

definition ok_payload :: payload where
  "ok_payload = \<lparr> json_success = True, json_detail = None, json_frame = None,
                   json_deleted_count = None \<rparr>"

definition start_pending :: state where
  "start_pending =
     snd (hd (fst (run (start_monitoring (Some ControlEvent) (initial_state noon)) [])))"

definition start_answered :: "state \<Rightarrow> state" where
  "start_answered s =
     (case snd (run (start_monitoring (Some ControlEvent) (initial_state noon))
                  [(HttpResult (Json ok_payload), \<lambda>_. s)]) of
        Finished r s' \<Rightarrow> s'
      | _ \<Rightarrow> s)"


text \<open>
  The alert \<open>start_monitoring\<close> writes for each kind of failure; the test of the polling
  loop on an answer, its request, and the alert it writes for an answer without frame.
\<close>

definition start_failure_message :: "http_outcome \<Rightarrow> string" where
  "start_failure_message r =
     (case r of
        Json result \<Rightarrow>
          ''Failed to start monitoring: '' @ get_default (json_detail result) ''Unknown error''
      | Raised Timeout m \<Rightarrow> ''Error starting monitoring: Request timed out.''
      | Raised RequestException m \<Rightarrow> ''Error starting monitoring: '' @ m
      | Raised OtherException m \<Rightarrow> ''Unexpected error starting monitoring: '' @ m)"


definition feed_request :: "state \<Rightarrow> request" where
  "feed_request s =
     \<lparr> verb = ''GET'', base_url = fst (get_base_url s), path = ''/camera'',
       json_body = [], params = [], timeout = 5 \<rparr>"


text \<open>
  More for the examples: the state after a successful start in a fresh window; an answer
  that reports failure and one that carries a frame; another handler clearing the flag;
  and the sleeps of a run, in milliseconds.
\<close>

definition monitoring :: state where
  "monitoring = start_answered start_pending"





text \<open>
  The text of the \<open>AttributeError\<close> that \<open>result.get\<close> raises when the answer to a
  request is the JSON array \<open>[]\<close> and not an object.
\<close>

definition attribute_error :: string where
  "attribute_error =
     [CHR 0x27] @ ''list'' @ [CHR 0x27] @ '' object has no attribute '' @ [CHR 0x27] @ ''get''
       @ [CHR 0x27]"

section \<open>The alert log is bounded\<close>

lemma append_alerts_snoc: "append_alerts (ms @ [m]) s = add_alert m (append_alerts ms s)"
  by (simp add: append_alerts_def)

lemma append_alerts_clock:
  "clock (append_alerts ms s) = clock s \<and> clock_reads (append_alerts ms s) = clock_reads s + length ms"
  by (induction ms rule: rev_induct) (simp_all add: append_alerts_def add_alert_def Let_def)

lemma drop_snoc_tl:
  assumes "200 \<le> length L"
  shows "tl (drop (length L - 200) L @ [x]) = drop (Suc (length L) - 200) (L @ [x])"
proof -
  have ne: "drop (length L - 200) L \<noteq> []" using assms by simp
  have "tl (drop (length L - 200) L @ [x]) = tl (drop (length L - 200) L) @ [x]"
    using ne by simp
  also have "tl (drop (length L - 200) L) = drop (Suc (length L - 200)) L"
    by (simp add: drop_Suc tl_drop)
  also have "Suc (length L - 200) = Suc (length L) - 200" using assms by simp
  finally show ?thesis using assms by simp
qed

lemma add_alert_log:
  "alerts_list (add_alert m s) =
     (if 200 \<le> length (alerts_list s)
      then tl (alerts_list s @ [alert_text (clock s (clock_reads s)) m])
      else alerts_list s @ [alert_text (clock s (clock_reads s)) m])"
  by (simp add: add_alert_def Let_def)

lemma append_alerts_log:
  assumes "length (alerts_list s) \<le> 200"
  shows "alerts_list (append_alerts ms s) =
         drop (length (alerts_list s) + length ms - 200)
           (alerts_list s @ map (\<lambda>i. alert_text (clock s (clock_reads s + i)) (ms ! i)) [0..<length ms])"
proof (induction ms rule: rev_induct)
  case Nil
  then show ?case using assms by (simp add: append_alerts_def)
next
  case (snoc m ms)
  define new where "new = (\<lambda>ms. map (\<lambda>i. alert_text (clock s (clock_reads s + i)) (ms ! i)) [0..<length ms])"
  define L where "L = alerts_list s @ new ms"
  define x where "x = alert_text (clock s (clock_reads s + length ms)) m"
  define A where "A = alerts_list (append_alerts ms s)"
  have new_snoc: "new (ms @ [m]) = new ms @ [x]"
    by (simp add: new_def x_def nth_append)
  have len: "length L = length (alerts_list s) + length ms" by (simp add: L_def new_def)
  have A: "A = drop (length L - 200) L"
    using snoc.IH unfolding A_def L_def new_def len [unfolded L_def new_def] by simp
  have lenA: "length A = min (length L) 200" unfolding A by simp
  have step: "alerts_list (append_alerts (ms @ [m]) s) =
      (if 200 \<le> length A then tl (A @ [x]) else A @ [x])"
    unfolding append_alerts_snoc add_alert_log A_def x_def
    using append_alerts_clock [of ms s] by simp
  have goal: "alerts_list (append_alerts (ms @ [m]) s) = drop (Suc (length L) - 200) (L @ [x])"
  proof (cases "200 \<le> length L")
    case True
    then have "alerts_list (append_alerts (ms @ [m]) s) = tl (A @ [x])"
      using step lenA by simp
    also have "\<dots> = drop (Suc (length L) - 200) (L @ [x])"
      unfolding A using True by (rule drop_snoc_tl)
    finally show ?thesis .
  next
    case False
    then have "A = L" unfolding A by simp
    then have "alerts_list (append_alerts (ms @ [m]) s) = L @ [x]"
      using step False by simp
    then show ?thesis using False by simp
  qed
  have "length (alerts_list s) + length (ms @ [m]) - 200 = Suc (length L) - 200"
    using len by simp
  moreover have "alerts_list s @ new (ms @ [m]) = L @ [x]"
    by (simp add: new_snoc L_def)
  ultimately show ?case using goal unfolding new_def by metis
qed

text \<open>
  Claim C4. Whatever messages are appended to the empty log of a fresh window, the log
  never holds more than 200 entries, and it holds exactly the last 200 of the entries
  appended, in the order of their insertion: the entry for the \<open>i\<close>-th message carries
  the \<open>i\<close>-th reading of the clock. So the 201st append drops the first entry and keeps
  the other 200. One append to a log of 200 or more entries removes the entry at the
  front and puts the new one at the end.
\<close>

theorem alert_log_capacity:
  "length (alerts_list (append_alerts ms (initial_state c))) \<le> 200
   \<and> alerts_list (append_alerts ms (initial_state c)) =
       drop (length ms - 200) (map (\<lambda>i. alert_text (c i) (ms ! i)) [0..<length ms])
   \<and> alerts_list (add_alert m s) =
       (if 200 \<le> length (alerts_list s)
        then tl (alerts_list s) @ [alert_text (clock s (clock_reads s)) m]
        else alerts_list s @ [alert_text (clock s (clock_reads s)) m])"
proof -
  have "alerts_list (append_alerts ms (initial_state c)) =
       drop (length ms - 200) (map (\<lambda>i. alert_text (c i) (ms ! i)) [0..<length ms])"
    using append_alerts_log [of "initial_state c" ms] by (simp add: initial_state_def)
  moreover have "alerts_list (add_alert m s) =
       (if 200 \<le> length (alerts_list s)
        then tl (alerts_list s) @ [alert_text (clock s (clock_reads s)) m]
        else alerts_list s @ [alert_text (clock s (clock_reads s)) m])"
    by (cases "alerts_list s") (simp_all add: add_alert_log)
  ultimately show ?thesis by simp
qed

section \<open>Self-destruct\<close>

text \<open>
  The runs below are under any schedule: \<open>r1\<close>, \<open>r2\<close>, \<open>r3\<close> are the answers to the three
  requests (of any kind, failures included), \<open>c\<close> is how the polling task ended if step 4
  waits for it, and \<open>f1\<close> to \<open>f4\<close> are what the other handlers did to the shared state
  during each suspension.
\<close>

lemma add_alert_frame [simp]:
  "is_running (add_alert m s) = is_running s"
  "video_update_task (add_alert m s) = video_update_task s"
  "task_count (add_alert m s) = task_count s"
  "api_url_input (add_alert m s) = api_url_input s"
  "console (add_alert m s) = console s"
  "self_destruct_status (add_alert m s) = self_destruct_status s"
  "start_button_disabled (add_alert m s) = start_button_disabled s"
  "stop_button_disabled (add_alert m s) = stop_button_disabled s"
  by (simp_all add: add_alert_def Let_def)

lemma get_base_url_frame [simp]:
  "is_running (snd (get_base_url s)) = is_running s"
  "video_update_task (snd (get_base_url s)) = video_update_task s"
  "task_count (snd (get_base_url s)) = task_count s"
  "alerts_list (snd (get_base_url s)) = alerts_list s"
  "self_destruct_status (snd (get_base_url s)) = self_destruct_status s"
  "start_button_disabled (snd (get_base_url s)) = start_button_disabled s"
  "stop_button_disabled (snd (get_base_url s)) = stop_button_disabled s"
  "clock (snd (get_base_url s)) = clock s"
  "clock_reads (snd (get_base_url s)) = clock_reads s"
  by (simp_all add: get_base_url_def Let_def)

lemma run_and_then_http:
  assumes "m = AwaitHttp q s1 k" and "k r (f s1) = Done (Inr acc') s2"
  shows "run (and_then m F) ((HttpResult r, f) # sch) =
           (let (tr, st) = run (F acc' s2) sch in ((Http q, s1) # tr, st))"
  using assms by (simp add: and_then_def)

lemma delete_s3_bucket_shape:
  "\<exists>q s1 k. delete_s3_bucket acc s = AwaitHttp q s1 k
     \<and> verb q = ''POST'' \<and> path q = ''/s3/bucket/delete''
     \<and> self_destruct_status s1 = ''Deleting S3 bucket...''
     \<and> keeps_monitoring s s1
     \<and> (\<forall>r s'. \<exists>acc' s2. k r s' = Done (Inr acc') s2
            \<and> fst acc' = (fst acc \<and> step_ok r) \<and> keeps_monitoring s' s2)"
proof -
  obtain base s1 where g: "get_base_url (add_alert ''Deleting S3 bucket...''
      (s\<lparr>self_destruct_status := ''Deleting S3 bucket...''\<rparr>)) = (base, s1)"
    by (cases "get_base_url (add_alert ''Deleting S3 bucket...''
      (s\<lparr>self_destruct_status := ''Deleting S3 bucket...''\<rparr>))")
  have s1: "self_destruct_status s1 = ''Deleting S3 bucket...''" "keeps_monitoring s s1"
    using get_base_url_frame [of "add_alert ''Deleting S3 bucket...''
      (s\<lparr>self_destruct_status := ''Deleting S3 bucket...''\<rparr>)"]
    unfolding g by (simp_all add: keeps_monitoring_def)
  show ?thesis
    unfolding delete_s3_bucket_def Let_def g prod.case
    apply (intro exI conjI)
         apply (rule refl)
        apply simp
       apply simp
      apply (rule s1)
     apply (rule s1)
    apply (intro allI)
    subgoal for r s'
      by (cases acc; cases r) (auto simp: failed_def step_ok_def keeps_monitoring_def)
    done
qed


lemma clean_database_shape:
  "\<exists>q s1 k. clean_database acc s = AwaitHttp q s1 k
     \<and> verb q = ''POST'' \<and> path q = ''/db/cleanup''
     \<and> self_destruct_status s1 = ''Cleaning up database...''
     \<and> keeps_monitoring s s1
     \<and> (\<forall>r s'. \<exists>acc' s2. k r s' = Done (Inr acc') s2
            \<and> fst acc' = (fst acc \<and> step_ok r) \<and> keeps_monitoring s' s2)"
proof -
  obtain base s1 where g: "get_base_url (add_alert ''Cleaning up database...''
      (s\<lparr>self_destruct_status := ''Cleaning up database...''\<rparr>)) = (base, s1)"
    by (cases "get_base_url (add_alert ''Cleaning up database...''
      (s\<lparr>self_destruct_status := ''Cleaning up database...''\<rparr>))")
  have s1: "self_destruct_status s1 = ''Cleaning up database...''" "keeps_monitoring s s1"
    using get_base_url_frame [of "add_alert ''Cleaning up database...''
      (s\<lparr>self_destruct_status := ''Cleaning up database...''\<rparr>)"]
    unfolding g by (simp_all add: keeps_monitoring_def)
  show ?thesis
    unfolding clean_database_def Let_def g prod.case
    apply (intro exI conjI)
         apply (rule refl)
        apply simp
       apply simp
      apply (rule s1)
     apply (rule s1)
    apply (intro allI)
    subgoal for r s'
      by (cases acc; cases r) (auto simp: failed_def step_ok_def keeps_monitoring_def)
    done
qed

lemma delete_database_file_shape:
  "\<exists>q s1 k. delete_database_file acc s = AwaitHttp q s1 k
     \<and> verb q = ''POST'' \<and> path q = ''/db/delete-file''
     \<and> self_destruct_status s1 = ''Deleting database file...''
     \<and> keeps_monitoring s s1
     \<and> (\<forall>r s'. \<exists>acc' s2. k r s' = Done (Inr acc') s2
            \<and> fst acc' = (fst acc \<and> step_ok r) \<and> keeps_monitoring s' s2)"
proof -
  obtain base s1 where g: "get_base_url (add_alert ''Deleting database file...''
      (s\<lparr>self_destruct_status := ''Deleting database file...''\<rparr>)) = (base, s1)"
    by (cases "get_base_url (add_alert ''Deleting database file...''
      (s\<lparr>self_destruct_status := ''Deleting database file...''\<rparr>))")
  have s1: "self_destruct_status s1 = ''Deleting database file...''" "keeps_monitoring s s1"
    using get_base_url_frame [of "add_alert ''Deleting database file...''
      (s\<lparr>self_destruct_status := ''Deleting database file...''\<rparr>)"]
    unfolding g by (simp_all add: keeps_monitoring_def)
  show ?thesis
    unfolding delete_database_file_def Let_def g prod.case
    apply (intro exI conjI)
         apply (rule refl)
        apply simp
       apply simp
      apply (rule s1)
     apply (rule s1)
    apply (intro allI)
    subgoal for r s'
      by (cases acc; cases r) (auto simp: failed_def step_ok_def keeps_monitoring_def)
    done
qed


lemma last_add_alert [simp]:
  "last (alerts_list (add_alert m s)) = alert_text (clock s (clock_reads s)) m"
  "clock (add_alert m s) = clock s"
  "clock_reads (add_alert m s) = Suc (clock_reads s)"
  by (cases "alerts_list s"; simp add: add_alert_def Let_def)+

lemma stop_tail:
  "\<exists>tr s'. run (and_then (stop_if_running acc s4) final_status) [(TaskDone c, f4)]
        = (tr, Finished (Inr ()) s')
     \<and> map (event_name \<circ> fst) tr = stop_step_events s4 c
     \<and> self_destruct_status s' =
         (if fst acc \<and> \<not> stop_step_failed s4 c then completed_text else errors_text)
     \<and> last (alerts_list s') = alert_text (clock s' (clock_reads s' - 1)) (self_destruct_status s')
     \<and> (is_running s4 \<or> keeps_monitoring s4 s')"
  by (cases acc; cases c; cases "video_update_task s4")
     (auto simp: and_then_def stop_if_running_def stop_monitoring_def stopped_def final_status_def
        failed_def Let_def stop_step_events_def stop_step_failed_def task_failed_def
        completed_text_def errors_text_def keeps_monitoring_def)

lemma self_destruct_run:
  "\<exists>q1 s1 q2 s2 q3 s3 s4 (acc :: tally) tr4 s'.
     run (perform_self_destruct e s)
       [(HttpResult r1, f1), (HttpResult r2, f2), (HttpResult r3, f3), (TaskDone c, f4)]
       = ((Http q1, s1) # (Http q2, s2) # (Http q3, s3) # tr4, Finished (Inr ()) s')
     \<and> verb q1 = ''POST'' \<and> path q1 = ''/s3/bucket/delete''
     \<and> verb q2 = ''POST'' \<and> path q2 = ''/db/cleanup''
     \<and> verb q3 = ''POST'' \<and> path q3 = ''/db/delete-file''
     \<and> self_destruct_status s1 = ''Deleting S3 bucket...''
     \<and> self_destruct_status s2 = ''Cleaning up database...''
     \<and> self_destruct_status s3 = ''Deleting database file...''
     \<and> keeps_monitoring s s1 \<and> keeps_monitoring (f1 s1) s2 \<and> keeps_monitoring (f2 s2) s3
     \<and> keeps_monitoring (f3 s3) s4
     \<and> fst acc = (step_ok r1 \<and> step_ok r2 \<and> step_ok r3)
     \<and> map (event_name \<circ> fst) tr4 = stop_step_events s4 c
     \<and> self_destruct_status s' =
         (if fst acc \<and> \<not> stop_step_failed s4 c then completed_text else errors_text)
     \<and> last (alerts_list s') = alert_text (clock s' (clock_reads s' - 1)) (self_destruct_status s')
     \<and> (is_running s4 \<or> keeps_monitoring s4 s')"
proof -
  define s0 where "s0 = s\<lparr>self_destruct_status := ''Self-destruct sequence initiated...'',
                 self_destruct_progress_visible := True,
                 self_destruct_confirm_disabled := True,
                 self_destruct_cancel_disabled := True\<rparr>"
  have k0: "keeps_monitoring s s0" by (simp add: keeps_monitoring_def s0_def)
  obtain q1 s1 k1 where 1: "delete_s3_bucket (True, []) s0 = AwaitHttp q1 s1 k1"
      "verb q1 = ''POST''" "path q1 = ''/s3/bucket/delete''"
      "self_destruct_status s1 = ''Deleting S3 bucket...''" "keeps_monitoring s0 s1"
      and k1: "\<forall>r s'. \<exists>acc' s2. k1 r s' = Done (Inr acc') s2
            \<and> fst acc' = (fst (True, [] :: string list) \<and> step_ok r) \<and> keeps_monitoring s' s2"
    using delete_s3_bucket_shape [of "(True, [])" s0] by blast
  obtain a1 t1 where a1: "k1 r1 (f1 s1) = Done (Inr a1) t1" "fst a1 = step_ok r1"
      "keeps_monitoring (f1 s1) t1"
    using k1 by fastforce
  obtain q2 s2 k2 where 2: "clean_database a1 t1 = AwaitHttp q2 s2 k2"
      "verb q2 = ''POST''" "path q2 = ''/db/cleanup''"
      "self_destruct_status s2 = ''Cleaning up database...''" "keeps_monitoring t1 s2"
      and k2: "\<forall>r s'. \<exists>acc' s2. k2 r s' = Done (Inr acc') s2
            \<and> fst acc' = (fst a1 \<and> step_ok r) \<and> keeps_monitoring s' s2"
    using clean_database_shape [of a1 t1] by blast
  obtain a2 t2 where a2: "k2 r2 (f2 s2) = Done (Inr a2) t2" "fst a2 = (fst a1 \<and> step_ok r2)"
      "keeps_monitoring (f2 s2) t2"
    using k2 by blast
  obtain q3 s3 k3 where 3: "delete_database_file a2 t2 = AwaitHttp q3 s3 k3"
      "verb q3 = ''POST''" "path q3 = ''/db/delete-file''"
      "self_destruct_status s3 = ''Deleting database file...''" "keeps_monitoring t2 s3"
      and k3: "\<forall>r s'. \<exists>acc' s2. k3 r s' = Done (Inr acc') s2
            \<and> fst acc' = (fst a2 \<and> step_ok r) \<and> keeps_monitoring s' s2"
    using delete_database_file_shape [of a2 t2] by blast
  obtain a3 t3 where a3: "k3 r3 (f3 s3) = Done (Inr a3) t3" "fst a3 = (fst a2 \<and> step_ok r3)"
      "keeps_monitoring (f3 s3) t3"
    using k3 by blast
  obtain tr4 s' where 4:
      "run (and_then (stop_if_running a3 t3) final_status) [(TaskDone c, f4)]
        = (tr4, Finished (Inr ()) s')"
      "map (event_name \<circ> fst) tr4 = stop_step_events t3 c"
      "self_destruct_status s' =
         (if fst a3 \<and> \<not> stop_step_failed t3 c then completed_text else errors_text)"
      "last (alerts_list s') = alert_text (clock s' (clock_reads s' - 1)) (self_destruct_status s')"
      "is_running t3 \<or> keeps_monitoring t3 s'"
    using stop_tail [of a3 t3 c f4] by blast
  have run: "run (perform_self_destruct e s)
       [(HttpResult r1, f1), (HttpResult r2, f2), (HttpResult r3, f3), (TaskDone c, f4)]
       = ((Http q1, s1) # (Http q2, s2) # (Http q3, s3) # tr4, Finished (Inr ()) s')"
    unfolding perform_self_destruct_def Let_def s0_def [symmetric]
    by (simp add: run_and_then_http [where k = k1 and r = r1 and f = f1, OF 1(1) a1(1)]
        run_and_then_http [where k = k2 and r = r2 and f = f2, OF 2(1) a2(1)]
        run_and_then_http [where k = k3 and r = r3 and f = f3, OF 3(1) a3(1)] 4(1))
  have km: "keeps_monitoring s s1" "keeps_monitoring (f1 s1) s2"
      "keeps_monitoring (f2 s2) s3"
    using k0 1(5) a1(3) 2(5) a2(3) 3(5) by (simp_all add: keeps_monitoring_def)
  have ok: "fst a3 = (step_ok r1 \<and> step_ok r2 \<and> step_ok r3)"
    using a1(2) a2(2) a3(2) by simp
  show ?thesis
  proof (intro exI conjI)
    show "run (perform_self_destruct e s)
       [(HttpResult r1, f1), (HttpResult r2, f2), (HttpResult r3, f3), (TaskDone c, f4)]
       = ((Http q1, s1) # (Http q2, s2) # (Http q3, s3) # tr4, Finished (Inr ()) s')"
      by (rule run)
    show "keeps_monitoring (f3 s3) t3" by (rule a3(3))
    show "fst a3 = (step_ok r1 \<and> step_ok r2 \<and> step_ok r3)" by (rule ok)
    show "map (event_name \<circ> fst) tr4 = stop_step_events t3 c" by (rule 4(2))
    show "self_destruct_status s' =
         (if fst a3 \<and> \<not> stop_step_failed t3 c then completed_text else errors_text)"
      by (rule 4(3))
    show "last (alerts_list s') = alert_text (clock s' (clock_reads s' - 1)) (self_destruct_status s')"
      by (rule 4(4))
    show "is_running t3 \<or> keeps_monitoring t3 s'" by (rule 4(5))
  qed (use km 1(2-4) 2(2-4) 3(2-4) in simp_all)
qed

lemma stop_step_cong:
  "keeps_monitoring s s' \<Longrightarrow> stop_step_events s' c = stop_step_events s c"
  "keeps_monitoring s s' \<Longrightarrow> stop_step_failed s' c = stop_step_failed s c"
  by (simp_all add: keeps_monitoring_def stop_step_events_def stop_step_failed_def)


lemma texts_differ: "completed_text \<noteq> errors_text"
  by (simp add: completed_text_def errors_text_def check_mark_def warning_sign_def)

text \<open>
  Claim C1. Whatever the three answers are, \<open>perform_self_destruct\<close> runs to its normal
  end, and what it does is, in this order: the request to delete the bucket, the request
  to clean the database, the request to delete the database file, each sent while the
  status line shows that step, and then the events of step 4, which are those of
  \<open>stop_monitoring\<close> if monitoring is active after the third answer and none otherwise.
\<close>

theorem self_destruct_order:
  "\<exists>tr s1 s2 s3 s'.
     run (perform_self_destruct e s)
       [(HttpResult r1, f1), (HttpResult r2, f2), (HttpResult r3, f3), (TaskDone c, f4)]
       = (tr, Finished (Inr ()) s')
     \<and> map (event_name \<circ> fst) tr =
         [''POST /s3/bucket/delete'', ''POST /db/cleanup'', ''POST /db/delete-file'']
         @ stop_step_events (f3 s3) c
     \<and> map snd (take 3 tr) = [s1, s2, s3]
     \<and> self_destruct_status s1 = ''Deleting S3 bucket...''
     \<and> self_destruct_status s2 = ''Cleaning up database...''
     \<and> self_destruct_status s3 = ''Deleting database file...''"
proof -
  obtain q1 s1 q2 s2 q3 s3 s4 and acc :: tally and tr4 s' where
    run: "run (perform_self_destruct e s)
       [(HttpResult r1, f1), (HttpResult r2, f2), (HttpResult r3, f3), (TaskDone c, f4)]
       = ((Http q1, s1) # (Http q2, s2) # (Http q3, s3) # tr4, Finished (Inr ()) s')"
    and q: "verb q1 = ''POST''" "path q1 = ''/s3/bucket/delete''"
      "verb q2 = ''POST''" "path q2 = ''/db/cleanup''"
      "verb q3 = ''POST''" "path q3 = ''/db/delete-file''"
    and st: "self_destruct_status s1 = ''Deleting S3 bucket...''"
      "self_destruct_status s2 = ''Cleaning up database...''"
      "self_destruct_status s3 = ''Deleting database file...''"
    and km: "keeps_monitoring (f3 s3) s4"
    and ev: "map (event_name \<circ> fst) tr4 = stop_step_events s4 c"
    using self_destruct_run [of e s r1 f1 r2 f2 r3 f3 c f4] by blast
  show ?thesis
  proof (intro exI conjI)
    show "run (perform_self_destruct e s)
       [(HttpResult r1, f1), (HttpResult r2, f2), (HttpResult r3, f3), (TaskDone c, f4)]
       = ((Http q1, s1) # (Http q2, s2) # (Http q3, s3) # tr4, Finished (Inr ()) s')"
      by (rule run)
    show "map (event_name \<circ> fst) ((Http q1, s1) # (Http q2, s2) # (Http q3, s3) # tr4) =
         [''POST /s3/bucket/delete'', ''POST /db/cleanup'', ''POST /db/delete-file'']
         @ stop_step_events (f3 s3) c"
      using q ev stop_step_cong(1) [OF km] by simp
    show "map snd (take 3 ((Http q1, s1) # (Http q2, s2) # (Http q3, s3) # tr4)) = [s1, s2, s3]"
      by (simp add: numeral_3_eq_3)
  qed (rule st)+
qed


lemma py_strip_default: "py_strip DEFAULT_REST_API_URL = DEFAULT_REST_API_URL"
  by (simp add: DEFAULT_REST_API_URL_def py_strip_def rstrip_tokens_def
      lstrip_tokens.simps whitespace_def)

lemma rstrip_slash_default: "rstrip_slash DEFAULT_REST_API_URL = DEFAULT_REST_API_URL"
  by (simp add: DEFAULT_REST_API_URL_def rstrip_slash_def rstrip_tokens_def lstrip_tokens.simps)

lemma get_base_url_default:
  "api_url_input s = DEFAULT_REST_API_URL \<Longrightarrow> get_base_url s = (DEFAULT_REST_API_URL, s)"
  by (simp add: get_base_url_def py_strip_default rstrip_slash_default has_scheme_def Let_def)
     (simp add: DEFAULT_REST_API_URL_def)

lemma start_pending_eq:
  "start_pending = add_alert ''Attempting to start monitoring...''
     ((initial_state noon)\<lparr>start_button_disabled := True\<rparr>)"
  by (simp add: start_pending_def start_monitoring_def Let_def get_base_url_default
      initial_state_def)

lemma start_answered_eq:
  "start_answered s =
     (add_alert ''Camera monitoring started successfully.''
        (s\<lparr>is_running := True, start_button_disabled := False,
            stop_button_disabled := False, status_label := ''Monitoring Active''\<rparr>))
     \<lparr>task_count := Suc (task_count s), video_update_task := Some (task_count s)\<rparr>"
  by (simp add: start_answered_def start_monitoring_def Let_def get_base_url_default
      initial_state_def ok_payload_def)


text \<open>
  Claim C3. The final status line, which is also the text of the last alert, says
  "completed successfully" exactly when each of the three answers was a success and
  step 4, if it was executed, did not raise; otherwise it says "completed with some
  errors".
\<close>

theorem self_destruct_composite_success:
  "\<exists>tr s3 s'.
     run (perform_self_destruct e s)
       [(HttpResult r1, f1), (HttpResult r2, f2), (HttpResult r3, f3), (TaskDone c, f4)]
       = (tr, Finished (Inr ()) s')
     \<and> map snd (drop 2 (take 3 tr)) = [s3]
     \<and> (self_destruct_status s' = completed_text) =
         (step_ok r1 \<and> step_ok r2 \<and> step_ok r3 \<and> \<not> stop_step_failed (f3 s3) c)
     \<and> (self_destruct_status s' = errors_text) =
         (\<not> (step_ok r1 \<and> step_ok r2 \<and> step_ok r3 \<and> \<not> stop_step_failed (f3 s3) c))
     \<and> last (alerts_list s') = alert_text (clock s' (clock_reads s' - 1)) (self_destruct_status s')"
proof -
  obtain q1 s1 q2 s2 q3 s3 s4 and acc :: tally and tr4 s' where
    run: "run (perform_self_destruct e s)
       [(HttpResult r1, f1), (HttpResult r2, f2), (HttpResult r3, f3), (TaskDone c, f4)]
       = ((Http q1, s1) # (Http q2, s2) # (Http q3, s3) # tr4, Finished (Inr ()) s')"
    and km: "keeps_monitoring (f3 s3) s4"
    and acc: "fst acc = (step_ok r1 \<and> step_ok r2 \<and> step_ok r3)"
    and fin: "self_destruct_status s' =
         (if fst acc \<and> \<not> stop_step_failed s4 c then completed_text else errors_text)"
    and lst: "last (alerts_list s') = alert_text (clock s' (clock_reads s' - 1)) (self_destruct_status s')"
    using self_destruct_run [of e s r1 f1 r2 f2 r3 f3 c f4] by blast
  have fin': "self_destruct_status s' =
      (if step_ok r1 \<and> step_ok r2 \<and> step_ok r3 \<and> \<not> stop_step_failed (f3 s3) c
       then completed_text else errors_text)"
    using fin acc stop_step_cong(2) [OF km] by simp
  show ?thesis
  proof (intro exI conjI)
    show "run (perform_self_destruct e s)
       [(HttpResult r1, f1), (HttpResult r2, f2), (HttpResult r3, f3), (TaskDone c, f4)]
       = ((Http q1, s1) # (Http q2, s2) # (Http q3, s3) # tr4, Finished (Inr ()) s')"
      by (rule run)
    show "map snd (drop 2 (take 3 ((Http q1, s1) # (Http q2, s2) # (Http q3, s3) # tr4))) = [s3]"
      by (simp add: numeral_3_eq_3 numeral_2_eq_2)
    show "(self_destruct_status s' = completed_text) =
         (step_ok r1 \<and> step_ok r2 \<and> step_ok r3 \<and> \<not> stop_step_failed (f3 s3) c)"
      using fin' texts_differ by auto
    show "(self_destruct_status s' = errors_text) =
         (\<not> (step_ok r1 \<and> step_ok r2 \<and> step_ok r3 \<and> \<not> stop_step_failed (f3 s3) c))"
      using fin' texts_differ by auto
    show "last (alerts_list s') = alert_text (clock s' (clock_reads s' - 1)) (self_destruct_status s')"
      by (rule lst)
  qed
qed

section \<open>Starting and stopping\<close>

lemma monitoring_fields:
  "is_running monitoring" "video_update_task monitoring = Some 0"
  "api_url_input monitoring = DEFAULT_REST_API_URL" "task_count monitoring = Suc 0"
  "alerts_list monitoring =
     [alert_text ''12:00:00'' ''Attempting to start monitoring...'',
      alert_text ''12:00:00'' ''Camera monitoring started successfully.'']"
  by (simp_all add: monitoring_def start_answered_eq start_pending_eq initial_state_def
      add_alert_def Let_def noon_def)

lemma get_base_url_monitoring: "get_base_url monitoring = (DEFAULT_REST_API_URL, monitoring)"
  by (simp add: get_base_url_default monitoring_fields)

lemma monitoring_window:
  "status_label monitoring = ''Monitoring Active''" "clock monitoring k = ''12:00:00''"
  "\<not> stop_button_disabled monitoring"
  by (simp_all add: monitoring_def start_answered_eq start_pending_eq initial_state_def
      add_alert_def Let_def noon_def)

lemma get_base_url_cases:
  obtains base s1 where "get_base_url s = (base, s1)" "is_running s1 = is_running s"
    "video_update_task s1 = video_update_task s" "task_count s1 = task_count s"
    "alerts_list s1 = alerts_list s" "start_button_disabled s1 = start_button_disabled s"
    "clock s1 = clock s" "clock_reads s1 = clock_reads s"
  using get_base_url_frame [of s] by (cases "get_base_url s") auto

text \<open>
  Claim C5. When monitoring is not active, \<open>start_monitoring\<close> disables the start
  button and sends the start request with the flag still false. If the answer reports
  success it sets the flag, creates the polling task and keeps its handle. On every other
  answer (a JSON object without success, a timeout, another request exception, any other
  exception) it ends normally without creating a task and leaves flag, handle and tasks
  as it finds them on resumption, so the flag stays false; the last alert names the
  cause. In all cases the start button is enabled again.
\<close>

theorem start_sets_active_on_success_only:
  assumes "\<not> is_running s"
  shows "\<exists>tr s1 s'.
      run (start_monitoring e s) [(HttpResult r, f)] = ((Http (camera_request (fst (get_base_url
        (add_alert ''Attempting to start monitoring...'' (s\<lparr>start_button_disabled := True\<rparr>))))
        ''start''), s1) # tr, Finished (Inr ()) s')
    \<and> \<not> is_running s1 \<and> start_button_disabled s1
    \<and> map (event_name \<circ> fst) tr =
        (if step_ok r then [''create_task update_video_feed''] else [])
    \<and> \<not> start_button_disabled s'
    \<and> (if step_ok r
        then is_running s' \<and> video_update_task s' = Some (task_count (f s1))
        else keeps_monitoring (f s1) s'
           \<and> last (alerts_list s') =
               alert_text (clock (f s1) (clock_reads (f s1))) (start_failure_message r))"
proof -
  obtain base s1 where g: "get_base_url
      (add_alert ''Attempting to start monitoring...'' (s\<lparr>start_button_disabled := True\<rparr>))
      = (base, s1)" and s1: "is_running s1 = is_running s" "start_button_disabled s1"
    by (rule get_base_url_cases [of "add_alert ''Attempting to start monitoring...''
        (s\<lparr>start_button_disabled := True\<rparr>)"]) simp
  show ?thesis
  proof (cases r)
    case (Json p)
    then show ?thesis
      using assms s1
      by (cases "json_success p")
         (simp_all add: start_monitoring_def Let_def g step_ok_def keeps_monitoring_def
           start_failure_message_def)
  next
    case (Raised cls m)
    then show ?thesis
      using assms s1
      by (cases cls)
         (simp_all add: start_monitoring_def Let_def g step_ok_def keeps_monitoring_def
           start_failure_message_def)
  qed
qed

theorem start_sets_active_on_success_only_witness:
  "\<not> is_running (initial_state noon)
   \<and> (\<exists>s1 s'. run (start_monitoring (Some ControlEvent) (initial_state noon))
             [(HttpResult (Raised Timeout ''timed out''), id)] =
           ([(Http (camera_request DEFAULT_REST_API_URL ''start''), s1)],
            Finished (Inr ()) s')
         \<and> \<not> is_running s1 \<and> \<not> is_running s' \<and> \<not> start_button_disabled s'
         \<and> last (alerts_list s') =
             alert_text (clock s1 (clock_reads s1))
               ''Error starting monitoring: Request timed out.'')"
proof -
  have p: "\<not> is_running (initial_state noon)" by (simp add: initial_state_def)
  have u: "api_url_input (add_alert ''Attempting to start monitoring...''
      ((initial_state noon)\<lparr>start_button_disabled := True\<rparr>)) = DEFAULT_REST_API_URL"
    by (simp add: initial_state_def)
  show ?thesis
    using p start_sets_active_on_success_only [OF p, of "Some ControlEvent"
        "Raised Timeout ''timed out''" id]
    by (auto simp: get_base_url_default [OF u] step_ok_def keeps_monitoring_def
        start_failure_message_def)
qed

text \<open>
  Claim C8. When monitoring is not active, \<open>stop_monitoring\<close> ends at once, with no
  event at all (no task created, cancelled or awaited, no request); flag, handle and
  tasks are unchanged and the last alert is the notice that there is nothing to stop.
\<close>

theorem stop_when_inactive:
  assumes "\<not> is_running s"
  shows "\<exists>s'. run (stop_monitoring e s) sch = ([], Finished (Inr ()) s')
    \<and> keeps_monitoring s s'
    \<and> last (alerts_list s') =
        alert_text (clock s (clock_reads s)) ''Camera monitoring not active. Cannot stop.''"
  using assms by (simp add: stop_monitoring_def Let_def keeps_monitoring_def)

theorem stop_when_inactive_witness:
  "\<not> is_running (initial_state noon)
   \<and> (\<exists>s'. run (stop_monitoring None (initial_state noon)) [] = ([], Finished (Inr ()) s')
    \<and> keeps_monitoring (initial_state noon) s'
    \<and> last (alerts_list s') =
        alert_text (clock (initial_state noon) (clock_reads (initial_state noon)))
          ''Camera monitoring not active. Cannot stop.'')"
  using stop_when_inactive [of "initial_state noon" None "[]"]
  by (simp add: initial_state_def)

text \<open>
  What \<open>stop_monitoring\<close> does when monitoring is active, for each way the wait for the
  polling task can end. Its events are, in order: \<open>cancel()\<close> on the polling task and the
  wait for it, if there is a handle, then the creation of the task \<open>send_stop_request\<close>;
  there is no request among them. At the cancellation and at the wait the flag is already
  false and the handle is still set. When the wait ends by the cancellation or by the
  task's return, the handle is cleared and "Camera monitoring stopped." logged when the
  new task is created. When the wait raises an exception of the polling task itself, that
  exception leaves \<open>stop_monitoring\<close> and nothing follows. The request to the backend is
  sent by the new task alone; whatever its outcome the alert log is untouched, and a
  failure is printed to the console.
\<close>

theorem stop_when_active:
  assumes "is_running s"
  shows "\<exists>tr st.
      run (stop_monitoring e s) [(TaskDone c, f)] = (tr, st)
    \<and> map (event_name \<circ> fst) tr = stop_step_events s c
    \<and> list_all (\<lambda>x. \<not> is_running (snd x) \<and> video_update_task (snd x) = video_update_task s)
         (take 2 tr)
    \<and> (if stop_step_failed s c
        then \<exists>cls m. c = TaskRaised cls m \<and> st = Finished (Inl (cls, m)) (f (snd (hd tr)))
        else \<exists>s'. st = Finished (Inr ()) s' \<and> video_update_task s' = None
               \<and> video_update_task (snd (last tr)) = None
               \<and> last (alerts_list (snd (last tr))) =
                   alert_text (clock (snd (last tr)) (clock_reads (snd (last tr)) - 1))
                     ''Camera monitoring stopped.'')
    \<and> (\<exists>s1 s'. run (send_stop_request s0) [(HttpResult r, g)]
           = ([(Http (camera_request (fst (get_base_url s0)) ''stop''), s1)],
              Finished (Inr ()) s')
         \<and> alerts_list s1 = alerts_list s0
         \<and> alerts_list s' = alerts_list (g s1)
         \<and> console s' =
             (case r of
                Raised cls m \<Rightarrow> console (g s1) @ [''Failed to send stop request to API: '' @ m]
              | Json result \<Rightarrow> console (g s1)))"
proof -
  obtain base s1 where g: "get_base_url s0 = (base, s1)" and s1: "alerts_list s1 = alerts_list s0"
    by (rule get_base_url_cases [of s0])
  have send: "\<exists>s1 s'. run (send_stop_request s0) [(HttpResult r, g)]
           = ([(Http (camera_request (fst (get_base_url s0)) ''stop''), s1)],
              Finished (Inr ()) s')
         \<and> alerts_list s1 = alerts_list s0
         \<and> alerts_list s' = alerts_list (g s1)
         \<and> console s' =
             (case r of
                Raised cls m \<Rightarrow> console (g s1) @ [''Failed to send stop request to API: '' @ m]
              | Json result \<Rightarrow> console (g s1))"
    using s1 by (cases r) (simp_all add: send_stop_request_def g)
  have stop: "\<exists>tr st.
      run (stop_monitoring e s) [(TaskDone c, f)] = (tr, st)
    \<and> map (event_name \<circ> fst) tr = stop_step_events s c
    \<and> list_all (\<lambda>x. \<not> is_running (snd x) \<and> video_update_task (snd x) = video_update_task s)
         (take 2 tr)
    \<and> (if stop_step_failed s c
        then \<exists>cls m. c = TaskRaised cls m \<and> st = Finished (Inl (cls, m)) (f (snd (hd tr)))
        else \<exists>s'. st = Finished (Inr ()) s' \<and> video_update_task s' = None
               \<and> video_update_task (snd (last tr)) = None
               \<and> last (alerts_list (snd (last tr))) =
                   alert_text (clock (snd (last tr)) (clock_reads (snd (last tr)) - 1))
                     ''Camera monitoring stopped.'')"
    using assms
    by (cases "video_update_task s"; cases c)
       (simp_all add: stop_monitoring_def stopped_def Let_def stop_step_events_def
         stop_step_failed_def task_failed_def numeral_2_eq_2)
  from stop send show ?thesis by blast
qed

theorem stop_when_active_witness:
  "is_running monitoring
   \<and> (\<exists>tr st. run (stop_monitoring (Some ControlEvent) monitoring) [(TaskDone TaskCancelled, id)]
          = (tr, st)
        \<and> map (event_name \<circ> fst) tr =
            [''cancel task'', ''await task'', ''create_task send_stop_request''])
   \<and> (\<exists>s1 s'. run (send_stop_request monitoring) [(HttpResult (Raised Timeout ''timed out''), id)]
          = ([(Http (camera_request DEFAULT_REST_API_URL ''stop''), s1)], Finished (Inr ()) s')
        \<and> alerts_list s' = alerts_list monitoring
        \<and> console s' = console s1 @ [''Failed to send stop request to API: timed out''])"
proof -
  have p: "is_running monitoring" by (rule monitoring_fields)
  show ?thesis
    using p stop_when_active [OF p, of "Some ControlEvent" TaskCancelled id monitoring
        "Raised Timeout ''timed out''" id]
    by (auto simp: get_base_url_monitoring stop_step_events_def monitoring_fields
        task_failed_def)
qed

text \<open>
  Claim C6 says that every \<open>stop_monitoring\<close> with monitoring active clears the handle
  after the wait and creates the task that sends the stop command. That fails when the
  polling task has ended with an exception of its own. Monitoring runs in a fresh window
  and a frame request is answered with the JSON array \<open>[]\<close>: \<open>result.get\<close> raises an
  \<open>AttributeError\<close> that no clause of the loop handles, so the polling task ends with it
  and the flag stays true. The user then presses Stop. The wait for the task raises that
  exception again, \<open>except asyncio.CancelledError\<close> does not catch it, and
  \<open>stop_monitoring\<close> ends with it after the cancellation and the wait: the task
  \<open>send_stop_request\<close> is not created, the handle is still set and the window still says
  "Monitoring Active", with the flag false. After a cancellation the same call goes on
  to the end.
\<close>

theorem stop_after_polling_task_died:
  "run (update_video_feed 1 monitoring) [(HttpResult (Raised OtherException attribute_error), id)]
     = ([(Http (feed_request monitoring), monitoring)],
        Finished (Inl (OtherException, attribute_error)) monitoring)
   \<and> is_running monitoring \<and> video_update_task monitoring = Some 0
   \<and> map (event_name \<circ> fst)
        (fst (run (stop_monitoring (Some ControlEvent) monitoring)
                [(TaskDone (TaskRaised OtherException attribute_error), id)]))
      = [''cancel task'', ''await task'']
   \<and> (case snd (run (stop_monitoring (Some ControlEvent) monitoring)
                   [(TaskDone (TaskRaised OtherException attribute_error), id)]) of
         Finished r s' \<Rightarrow>
           r = Inl (OtherException, attribute_error)
           \<and> \<not> is_running s' \<and> video_update_task s' = Some 0
           \<and> task_count s' = task_count monitoring
           \<and> status_label s' = ''Monitoring Active''
           \<and> last (alerts_list s') = alert_text ''12:00:00'' ''Attempting to stop monitoring...''
       | _ \<Rightarrow> False)
   \<and> run (stop_monitoring (Some ControlEvent) monitoring) [(TaskDone TaskCancelled, id)]
       \<noteq> run (stop_monitoring (Some ControlEvent) monitoring)
           [(TaskDone (TaskRaised OtherException attribute_error), id)]"
  by (simp add: monitoring_fields get_base_url_monitoring feed_request_def
      stop_monitoring_def stopped_def Let_def add_alert_def monitoring_window)

section \<open>The polling loop\<close>






section \<open>The base URL\<close>













end
